theory Spec2Isabelle
  imports Complex_Main "HOL-Library.Sublist"
begin

section \<open>The timer (utils/macrostrat/utils/timer.py)\<close>

subsection \<open>Data\<close>

text \<open>
  \<^verbatim>\<open>class Timing(BaseModel)\<close>: a step name and three floats. The float type is a
  parameter \<open>'f\<close>: the code only subtracts floats and writes the literal \<open>0\<close>, so the
  functions below ask for the syntactic classes \<open>minus\<close> and \<open>zero\<close> and for nothing
  that floats would not satisfy. The field \<open>total\<close> is named \<open>total_t\<close> here.
\<close>

record 'f Timing =
  name :: string
  delta :: 'f
  total_t :: 'f
  time :: 'f

text \<open>\<^verbatim>\<open>class Timer\<close>: its only attribute is the list \<open>timings\<close>.\<close>

record 'f Timer =
  timings :: "'f Timing list"

text \<open>
  Timer objects are mutable and shared by reference: the context variable holds a
  reference to a Timer, and \<open>add_step\<close> mutates the object behind it. The store maps
  references to objects. \<open>code_timer\<close> is the \<^verbatim>\<open>ContextVar("code_timer", default=None)\<close>
  of the current context: \<open>None\<close> when it was never set there, \<open>Some v\<close> when it
  is set to \<open>v\<close>, where \<open>v\<close> is Python's \<open>None\<close> or a reference to a Timer.
\<close>

type_synonym ref = nat

record 'f state =
  heap :: "ref \<Rightarrow> 'f Timer"
  code_timer :: "ref option option"

text \<open>The token of \<^verbatim>\<open>ContextVar.set\<close> remembers the variable's state before the call.\<close>

record token =
  old_value :: "ref option option"

datatype exn = IndexError

subsection \<open>The context variable\<close>

definition code_timer_get :: "'f state \<Rightarrow> ref option" where
  "code_timer_get s = (case code_timer s of None \<Rightarrow> None | Some v \<Rightarrow> v)"

definition code_timer_set :: "ref option \<Rightarrow> 'f state \<Rightarrow> token \<times> 'f state" where
  "code_timer_set v s = (\<lparr>old_value = code_timer s\<rparr>, s\<lparr>code_timer := Some v\<rparr>)"

definition code_timer_reset :: "token \<Rightarrow> 'f state \<Rightarrow> 'f state" where
  "code_timer_reset tok s = s\<lparr>code_timer := old_value tok\<rparr>"

subsection \<open>Methods of Timer\<close>

text \<open>
  Every method that reads the clock takes the reading of \<^verbatim>\<open>perf_counter()\<close> as its
  argument \<open>t\<close>. A method of an object is a function from the object to a result and
  the object afterwards; a raised exception is \<open>Inl\<close>.
\<close>

text \<open>\<^verbatim>\<open>Timer.__init__\<close>\<close>

definition Timer_init :: "'f::zero \<Rightarrow> 'f Timer" where
  "Timer_init t = \<lparr>timings = [\<lparr>name = ''start'', delta = 0, total_t = 0, time = t\<rparr>]\<rparr>"

text \<open>
  \<^verbatim>\<open>Timer._add_step\<close>. \<^verbatim>\<open>self.timings[-1]\<close> raises IndexError on an empty list,
  before anything is appended.
\<close>

definition self_add_step ::
  "string \<Rightarrow> 'f::minus \<Rightarrow> 'f Timer \<Rightarrow> (exn + 'f Timing) \<times> 'f Timer" where
  "self_add_step nm t self =
     (case timings self of
        [] \<Rightarrow> (Inl IndexError, self)
      | first # _ \<Rightarrow>
          (let last_step = last (timings self);
               rec = \<lparr>name = nm, delta = t - time last_step,
                      total_t = t - time first, time = t\<rparr>
           in (Inr rec, self\<lparr>timings := timings self @ [rec]\<rparr>)))"

text \<open>Python's \<^verbatim>\<open>sep.join(xs)\<close> and the slice \<^verbatim>\<open>xs[1:-1]\<close>.\<close>

fun join :: "string \<Rightarrow> string list \<Rightarrow> string" where
  "join sep [] = []"
| "join sep [x] = x"
| "join sep (x # y # ys) = x @ sep @ join sep (y # ys)"

definition slice_1_m1 :: "'a list \<Rightarrow> 'a list" where
  "slice_1_m1 xs = drop 1 (take (length xs - 1) xs)"

text \<open>
  \<^verbatim>\<open>Timer.server_timings\<close>, first with the rendering \<open>ms\<close> of a duration inside
  the f-strings as a parameter: the step \<open>end\<close>, the slice \<open>[1:-1]\<close>, the two
  f-strings and the join are the method's; \<open>Timer_server_timings\<close> below puts the
  source's expression \<^verbatim>\<open>round(x*1000, 1)\<close> in the place of \<open>ms\<close>.
\<close>

definition server_timings ::
  "('f \<Rightarrow> string) \<Rightarrow> 'f::minus \<Rightarrow> 'f Timer \<Rightarrow> (exn + string) \<times> 'f Timer" where
  "server_timings ms t self =
     (case self_add_step ''end'' t self of
        (Inl e, self1) \<Rightarrow> (Inl e, self1)
      | (Inr _, self1) \<Rightarrow>
          (let timings1 = map (\<lambda>x. name x @ '';dur='' @ ms (delta x))
                              (slice_1_m1 (timings self1));
               timings2 = timings1 @ [''total;dur='' @ ms (total_t (last (timings self1)))]
           in (Inr (join '', '' timings2), self1)))"

text \<open>
  Python's \<^verbatim>\<open>round(x, ndigits)\<close> on a float: the nearest multiple of
  \<open>10 ^ -ndigits\<close>, a tie going to the even one. Floats are read as the real numbers
  they denote; the rounding error of float arithmetic is not modelled.
\<close>

definition round_half_even :: "real \<Rightarrow> int" where
  "round_half_even x =
     (let n = \<lfloor>x\<rfloor>; f = x - of_int n in
      if f < 1 / 2 then n
      else if 1 / 2 < f then n + 1
      else if even n then n else n + 1)"

definition py_round :: "real \<Rightarrow> nat \<Rightarrow> real" where
  "py_round x ndigits = of_int (round_half_even (x * 10 ^ ndigits)) / 10 ^ ndigits"

text \<open>
  The replacement field of the f-strings of \<^verbatim>\<open>server_timings\<close>,
  \<^verbatim>\<open>{round(x*1000, 1)}\<close>, for a duration \<open>x\<close> in seconds (\<^verbatim>\<open>perf_counter\<close> counts
  seconds). The parameter \<open>str\<close> is Python's conversion of the resulting float to
  text, and nothing else.
\<close>

definition dur :: "(real \<Rightarrow> string) \<Rightarrow> real \<Rightarrow> string" where
  "dur str x = str (py_round (x * 1000) 1)"

text \<open>\<^verbatim>\<open>Timer.server_timings\<close> as the source has it.\<close>

definition Timer_server_timings ::
  "(real \<Rightarrow> string) \<Rightarrow> real \<Rightarrow> real Timer \<Rightarrow> (exn + string) \<times> real Timer" where
  "Timer_server_timings str t self = server_timings (dur str) t self"

text \<open>A method call on the object behind a reference: the object is updated in place.\<close>

definition call ::
  "ref \<Rightarrow> ('f Timer \<Rightarrow> 'r \<times> 'f Timer) \<Rightarrow> 'f state \<Rightarrow> 'r \<times> 'f state" where
  "call self m s = (let (res, obj) = m (heap s self) in (res, s\<lparr>heap := (heap s)(self := obj)\<rparr>))"

text \<open>\<^verbatim>\<open>Timer.add_step\<close> (classmethod): the ambient timer, if any, gets the step.\<close>

definition add_step :: "string \<Rightarrow> 'f::minus \<Rightarrow> 'f state \<Rightarrow> (exn + unit) \<times> 'f state" where
  "add_step nm t s =
     (case code_timer_get s of
        None \<Rightarrow> (Inr (), s)
      | Some timer \<Rightarrow>
          (case call timer (self_add_step nm t) s of
             (Inl e, s1) \<Rightarrow> (Inl e, s1)
           | (Inr _, s1) \<Rightarrow> (Inr (), s1)))"

text \<open>
  \<^verbatim>\<open>with self.context() as x: body\<close>. The generator sets the variable, yields
  \<open>self\<close> to the body, and resets the variable in its \<^verbatim>\<open>finally\<close> clause, which
  runs when the body returns and when it raises (\<open>Inl\<close>); the body's outcome is passed on.
\<close>

definition Timer_context ::
  "ref \<Rightarrow> (ref \<Rightarrow> 'f state \<Rightarrow> ('e + 'a) \<times> 'f state) \<Rightarrow> 'f state \<Rightarrow> ('e + 'a) \<times> 'f state" where
  "Timer_context self body s =
     (let (token, s1) = code_timer_set (Some self) s;
          (res, s2) = body self s1;
          s3 = code_timer_reset token s2
      in (res, s3))"

subsection \<open>Programs over the timer's interface\<close>

text \<open>
  A block of calls to the public operations: \<^verbatim>\<open>Timer.add_step(name)\<close>,
  \<^verbatim>\<open>timer.server_timings()\<close> on the object behind a reference, and
  \<^verbatim>\<open>with timer.context(): block\<close>. An exception ends the enclosing blocks.
\<close>

datatype 'f cmd =
  AddStep string 'f
| ServerTimings ref 'f
| WithContext ref "'f cmd list"

fun run_cmd :: "('f \<Rightarrow> string) \<Rightarrow> 'f::minus cmd \<Rightarrow> 'f state \<Rightarrow> (exn + unit) \<times> 'f state"
and run_block :: "('f \<Rightarrow> string) \<Rightarrow> 'f cmd list \<Rightarrow> 'f state \<Rightarrow> (exn + unit) \<times> 'f state" where
  "run_cmd ms (AddStep nm t) s = add_step nm t s"
| "run_cmd ms (ServerTimings r t) s =
     (case call r (server_timings ms t) s of
        (Inl e, s1) \<Rightarrow> (Inl e, s1)
      | (Inr _, s1) \<Rightarrow> (Inr (), s1))"
| "run_cmd ms (WithContext r b) s = Timer_context r (\<lambda>_. run_block ms b) s"
| "run_block ms [] s = (Inr (), s)"
| "run_block ms (c # cs) s =
     (case run_cmd ms c s of
        (Inl e, s1) \<Rightarrow> (Inl e, s1)
      | (Inr _, s1) \<Rightarrow> run_block ms cs s1)"

subsection \<open>Example sessions\<close>

definition example_state :: "real state" where
  "example_state = \<lparr>heap = (\<lambda>_. Timer_init 10), code_timer = None\<rparr>"

definition failing_body :: "ref \<Rightarrow> real state \<Rightarrow> (string + unit) \<times> real state" where
  "failing_body self s = (let (_, s1) = add_step ''query'' 12 s in (Inl ''boom'', s1))"

definition returning_body :: "ref \<Rightarrow> real state \<Rightarrow> (string + unit) \<times> real state" where
  "returning_body self s = (let (_, s1) = add_step ''query'' 12 s in (Inr (), s1))"

section \<open>The statement-execution layer\<close>

text \<open>
  The package \<^verbatim>\<open>macrostrat.database\<close> (\<^verbatim>\<open>Database.run_sql\<close>, \<^verbatim>\<open>run_sql\<close>,
  \<^verbatim>\<open>utils.infer_is_sql_text\<close>) is not among the source files; its test file
  \<^verbatim>\<open>database/test_database.py\<close> is. The definitions of this section follow the
  specification (sections 3, 4.1 to 4.4, 7 and 8), and the calls of the test file are
  the examples.
\<close>

subsection \<open>Characters and substrings\<close>

text \<open>Modelled from the spec: the ASCII letters and digits, for "case-insensitive"
  keyword matching and for the identifiers of placeholders and dollar-quote tags.\<close>

definition lower_chars :: string where
  "lower_chars = ''abcdefghijklmnopqrstuvwxyz''"

definition upper_chars :: string where
  "upper_chars = ''ABCDEFGHIJKLMNOPQRSTUVWXYZ''"

definition digit_chars :: string where
  "digit_chars = ''0123456789''"

definition to_upper :: "char \<Rightarrow> char" where
  "to_upper c = (case map_of (zip lower_chars upper_chars) c of Some u \<Rightarrow> u | None \<Rightarrow> c)"

definition is_ident_char :: "char \<Rightarrow> bool" where
  "is_ident_char c = (c \<in> set (lower_chars @ upper_chars @ digit_chars @ ''_''))"

text \<open>Modelled from the spec: "no whitespace"; space, tab, newline, vertical tab, form
  feed and carriage return.\<close>

definition is_space :: "char \<Rightarrow> bool" where
  "is_space c = (c \<in> set [CHR '' '', CHR 0x09, CHR 0x0A, CHR 0x0B, CHR 0x0C, CHR 0x0D])"

text \<open>Modelled from the spec: "text containing" a keyword or a delimiter; \<open>contains s k\<close>
  holds when \<open>k\<close> occurs in \<open>s\<close> as a contiguous substring.\<close>

fun contains :: "string \<Rightarrow> string \<Rightarrow> bool" where
  "contains [] k = (k = [])"
| "contains (c # cs) k = (prefix k (c # cs) \<or> contains cs k)"

subsection \<open>InputClassifier (spec 4.1)\<close>

text \<open>Modelled from the spec: the value handed to \<open>classify\<close> (the missing
  \<^verbatim>\<open>infer_is_sql_text\<close> takes a string or a byte sequence) and its three answers.\<close>

datatype input_value = Str string | ByteSeq string

datatype source_kind = InlineText | Bytes | FilePath

text \<open>Modelled from the spec: what section 4.1 leaves open. It names the keywords
  SELECT, INSERT and CREATE and goes on with "etc.", names the extension \<open>.sql\<close> as
  one "such as", and gives no number for "short enough to plausibly be a path". The
  further keywords, the further extensions and the length bound are parameters.\<close>

record classifier_cfg =
  more_keywords :: "string list"
  more_extensions :: "string list"
  max_path_len :: nat

definition sql_keywords :: "classifier_cfg \<Rightarrow> string list" where
  "sql_keywords cfg = [''SELECT'', ''INSERT'', ''CREATE''] @ more_keywords cfg"

definition sql_extensions :: "classifier_cfg \<Rightarrow> string list" where
  "sql_extensions cfg = [''.sql''] @ more_extensions cfg"

text \<open>Modelled from the spec: "any text containing a SQL keyword (case-insensitive) or a
  newline"; these are the SQL-indicative tokens.\<close>

definition mentions_keyword :: "string \<Rightarrow> string \<Rightarrow> bool" where
  "mentions_keyword s k = contains (map to_upper s) (map to_upper k)"

definition has_sql_token :: "classifier_cfg \<Rightarrow> string \<Rightarrow> bool" where
  "has_sql_token cfg s =
     (list_ex (mentions_keyword s) (sql_keywords cfg) \<or> CHR 0x0A \<in> set s)"

text \<open>Modelled from the spec: the file-path shape, "no whitespace, ends in a known SQL
  file extension such as .sql, and is short enough to plausibly be a path".\<close>

definition no_whitespace :: "string \<Rightarrow> bool" where
  "no_whitespace s = list_all (\<lambda>c. \<not> is_space c) s"

definition path_shape :: "classifier_cfg \<Rightarrow> string \<Rightarrow> bool" where
  "path_shape cfg s =
     (no_whitespace s
      \<and> list_ex (\<lambda>e. suffix e s) (sql_extensions cfg)
      \<and> length s \<le> max_path_len cfg)"

text \<open>Modelled from the spec: \<open>classify\<close>, which stands for the missing
  \<^verbatim>\<open>macrostrat.database.utils.infer_is_sql_text\<close>. Bytes are always \<open>Bytes\<close>; a
  string is \<open>FilePath\<close> only if it has no SQL-indicative token and has the file-path
  shape, otherwise \<open>InlineText\<close>.\<close>

definition classify :: "classifier_cfg \<Rightarrow> input_value \<Rightarrow> source_kind" where
  "classify cfg v =
     (case v of
        ByteSeq _ \<Rightarrow> Bytes
      | Str s \<Rightarrow> if \<not> has_sql_token cfg s \<and> path_shape cfg s then FilePath else InlineText)"

text \<open>Modelled from the spec: \<^verbatim>\<open>infer_is_sql_text\<close> as the test file uses it, true
  unless the value is classified as a path.\<close>

definition infer_is_sql_text :: "classifier_cfg \<Rightarrow> input_value \<Rightarrow> bool" where
  "infer_is_sql_text cfg v = (classify cfg v \<noteq> FilePath)"

subsection \<open>PlaceholderAnalyzer (spec 3 and 4.2)\<close>

text \<open>Modelled from the spec: the PlaceholderProfile of section 3. No sentence of
  section 4.2 says when the client style is \<open>Positional\<close>; the analyzer below never
  returns it.\<close>

datatype client_style = Named | Positional | NoClientStyle

record placeholder_profile =
  clientStyle :: client_style
  hasServerPercent :: bool
  ambiguous :: bool

text \<open>Modelled from the spec: what the analyzer detects in a text. \<open>NamedMark n\<close> is a
  client-style placeholder \<open>:n\<close>; \<open>ServerPositional\<close> is \<open>%s\<close> and \<open>ServerNamed n\<close>
  is \<open>%(n)s\<close>; \<open>BarePercent\<close> is a \<open>%\<close> of neither shape; \<open>DollarPercent\<close> is a
  \<open>%\<close> inside a matched dollar-quoted span, which is literal content and never a
  placeholder.\<close>

datatype mark =
  NamedMark string
| ServerPositional
| ServerNamed string
| BarePercent
| DollarPercent

text \<open>Modelled from the spec: the states of the "small dedicated lexer" of section 9:
  plain text, inside a quoted string, inside the dollar-quoted span of a delimiter.\<close>

datatype mode = Plain | Quoted | Dollar string

text \<open>Modelled from the spec: "a delimiter of the form \<open>$tag$ ... $tag$\<close> (tag may be
  empty)". \<open>dollar_open cs\<close> looks at the text after a \<open>$\<close>: if a tag and a second
  \<open>$\<close> follow and the same delimiter occurs again later (the span is matched), it
  returns the delimiter.\<close>

definition dollar_open :: "string \<Rightarrow> string option" where
  "dollar_open cs =
     (let tag = takeWhile is_ident_char cs in
      case dropWhile is_ident_char cs of
        [] \<Rightarrow> None
      | c # body \<Rightarrow>
          if c = CHR ''$'' \<and> contains body (CHR ''$'' # tag @ ''$'')
          then Some (CHR ''$'' # tag @ ''$'') else None)"

text \<open>Modelled from the spec: "server-style positional percent placeholders (\<open>%s\<close>,
  \<open>%(name)s\<close>)" and the bare \<open>%\<close> that is "neither of the above".
  \<open>percent_mark cs\<close> looks at the text after a \<open>%\<close> and returns the mark and the
  number of characters of the placeholder that follow the \<open>%\<close>.\<close>

definition percent_mark :: "string \<Rightarrow> mark \<times> nat" where
  "percent_mark cs =
     (case cs of
        [] \<Rightarrow> (BarePercent, 0)
      | c # r \<Rightarrow>
          if c = CHR ''s'' then (ServerPositional, 1)
          else if c = CHR ''('' \<and> takeWhile is_ident_char r \<noteq> []
                  \<and> prefix '')s'' (dropWhile is_ident_char r)
          then (ServerNamed (takeWhile is_ident_char r), length (takeWhile is_ident_char r) + 3)
          else (BarePercent, 0))"

text \<open>Modelled from the spec: the scan of a statement text. The arguments are the mode,
  the number of characters still to skip (the rest of a delimiter or placeholder just
  read), whether the previous character was a colon, and the text. A named placeholder
  is \<open>:identifier\<close> "not preceded by another colon and not inside a quoted string or
  dollar-quoted block"; a \<open>%\<close> outside a dollar-quoted span is classified by
  \<open>percent_mark\<close>; a \<open>%\<close> inside one is \<open>DollarPercent\<close>.\<close>

fun scan :: "mode \<Rightarrow> nat \<Rightarrow> bool \<Rightarrow> string \<Rightarrow> mark list" where
  "scan m k pc [] = []"
| "scan m (Suc k) pc (c # cs) = scan m k False cs"
| "scan (Dollar d) 0 pc (c # cs) =
     (if prefix d (c # cs) then scan Plain (length d - 1) False cs
      else if c = CHR ''%'' then DollarPercent # scan (Dollar d) 0 False cs
      else scan (Dollar d) 0 False cs)"
| "scan Quoted 0 pc (c # cs) =
     (if c = CHR 0x27 then scan Plain 0 False cs
      else if c = CHR ''%''
      then fst (percent_mark cs) # scan Quoted (snd (percent_mark cs)) False cs
      else scan Quoted 0 False cs)"
| "scan Plain 0 pc (c # cs) =
     (if c = CHR ''$'' then
        (case dollar_open cs of
           Some d \<Rightarrow> scan (Dollar d) (length d - 1) False cs
         | None \<Rightarrow> scan Plain 0 False cs)
      else if c = CHR 0x27 then scan Quoted 0 False cs
      else if c = CHR ''%''
      then fst (percent_mark cs) # scan Plain (snd (percent_mark cs)) False cs
      else if c = CHR '':'' \<and> \<not> pc \<and> takeWhile is_ident_char cs \<noteq> []
      then NamedMark (takeWhile is_ident_char cs)
             # scan Plain (length (takeWhile is_ident_char cs)) False cs
      else scan Plain 0 (c = CHR '':'') cs)"

definition marks_of :: "string \<Rightarrow> mark list" where
  "marks_of stmt = scan Plain 0 False stmt"

text \<open>Modelled from the spec: the kinds of marks. A bare \<open>%\<close> is one that is no
  placeholder: \<open>BarePercent\<close>, and \<open>DollarPercent\<close>, the case that section 4.2 calls
  typical ("arising inside embedded procedural-language function bodies (delimited by
  matching dollar-quote tags)").\<close>

fun is_named :: "mark \<Rightarrow> bool" where
  "is_named (NamedMark _) = True"
| "is_named _ = False"

fun is_server :: "mark \<Rightarrow> bool" where
  "is_server ServerPositional = True"
| "is_server (ServerNamed _) = True"
| "is_server _ = False"

fun is_bare :: "mark \<Rightarrow> bool" where
  "is_bare BarePercent = True"
| "is_bare DollarPercent = True"
| "is_bare _ = False"



text \<open>Modelled from the spec: \<open>analyze\<close>, the missing analysis inside \<^verbatim>\<open>run_sql\<close>.
  Section 3: the profile is ambiguous "when the text contains \<open>%\<close> sequences that are
  not obviously client-bound parameters (e.g., embedded inside a dollar-quoted
  procedural body or function body literal) AND the caller did not explicitly declare
  server-bind intent". Section 4.2: a supplied hint is trusted and ambiguity detection
  is skipped; with no hint, bare \<open>%\<close> occurrences make the profile ambiguous. The last
  sentence of section 4.2 (a \<open>%\<close> inside a dollar-quoted span is literal content, never
  a placeholder) is kept in that such a \<open>%\<close> is never counted as a server
  placeholder. Read as "such a \<open>%\<close> never makes the text ambiguous", it would
  contradict section 3 and the repository's test
  \<^verbatim>\<open>test_server_parameters_function_def\<close>, which expects the call without a hint
  to raise on a text whose every \<open>%\<close> is inside \<open>$$ ... $$\<close>.\<close>

definition analyze :: "string \<Rightarrow> bool option \<Rightarrow> placeholder_profile" where
  "analyze stmt serverBindsHint =
     (let marks = marks_of stmt in
      \<lparr>clientStyle = (if list_ex is_named marks then Named else NoClientStyle),
       hasServerPercent =
         (case serverBindsHint of Some b \<Rightarrow> b | None \<Rightarrow> list_ex is_server marks),
       ambiguous =
         (case serverBindsHint of Some _ \<Rightarrow> False | None \<Rightarrow> list_ex is_bare marks)\<rparr>)"

text \<open>Modelled from the spec: the names that appear as placeholders in a text, in the
  client style \<open>:name\<close> or in the server style \<open>%(name)s\<close>.\<close>

fun mark_name :: "mark \<Rightarrow> string list" where
  "mark_name (NamedMark n) = [n]"
| "mark_name (ServerNamed n) = [n]"
| "mark_name _ = []"

definition placeholder_names :: "string \<Rightarrow> string list" where
  "placeholder_names stmt = concat (map mark_name (marks_of stmt))"

subsection \<open>ExecutionPolicy and the executor (spec 4.3, 4.4 and 7)\<close>

text \<open>Modelled from the spec: the ExecutionPolicy and its selection from the legacy
  flag (\<^verbatim>\<open>stop_on_error\<close> in the test file) and the modern flag
  (\<^verbatim>\<open>raise_errors\<close>). The spec does not say which policy two set flags select; the
  legacy flag is taken first, since its notice is due whenever it is used.\<close>

datatype execution_policy = Silent | WarnDeprecated | Strict

definition resolve :: "bool \<Rightarrow> bool \<Rightarrow> execution_policy" where
  "resolve requestedLegacyFlag requestedStrictFlag =
     (if requestedLegacyFlag then WarnDeprecated
      else if requestedStrictFlag then Strict else Silent)"

text \<open>Modelled from the spec: the error taxonomy of section 7, with the backend's
  classification \<open>'k\<close> of a failure kept inside \<open>BackendExecutionError\<close>, and the
  advisory that is not a failure.\<close>

datatype 'k error = NotFound | ReadError | ParameterAmbiguityError | BackendExecutionError 'k

datatype notice = DeprecationNotice

text \<open>Modelled from the spec: the ExecutionRequest of section 3, with the text of its
  resolved statement.\<close>

record 'v execution_request =
  statement :: string
  params :: "string \<rightharpoonup> 'v"
  policy :: execution_policy
  serverBindsHint :: "bool option"

text \<open>Modelled from the spec: \<open>execute\<close>, which stands for the missing
  \<^verbatim>\<open>Database.run_sql\<close>. The connection handle \<open>conn\<close> is the external collaborator:
  given the statement and the bound parameters it returns rows or a classified
  failure. The notice of the legacy flag is emitted once, whatever happens next. An
  ambiguous profile fails before the handle is called. Only the parameters whose names
  appear as placeholders are handed on. A backend failure is swallowed under
  \<open>Silent\<close> (an empty result) and raised, with its classification, under the other two
  policies. The result is the emitted notices and the outcome.\<close>

definition execute ::
  "'v execution_request \<Rightarrow> (string \<Rightarrow> (string \<rightharpoonup> 'v) \<Rightarrow> 'k + 'row list)
     \<Rightarrow> notice list \<times> ('k error + 'row list)" where
  "execute req conn =
     (let notices = (if policy req = WarnDeprecated then [DeprecationNotice] else []);
          profile = analyze (statement req) (serverBindsHint req)
      in if ambiguous profile then (notices, Inl ParameterAmbiguityError)
         else
           (case conn (statement req)
                   (params req |` set (placeholder_names (statement req))) of
              Inr rows \<Rightarrow> (notices, Inr rows)
            | Inl k \<Rightarrow>
                (case policy req of
                   Silent \<Rightarrow> (notices, Inr [])
                 | _ \<Rightarrow> (notices, Inl (BackendExecutionError k)))))"

subsection \<open>The statements of the test file\<close>


text \<open>The statements of \<^verbatim>\<open>test_extraneous_argument\<close> and \<^verbatim>\<open>test_query_error\<close>.\<close>

definition insert_sql :: string where
  "insert_sql = ''INSERT INTO sample (name) VALUES (:name)''"

definition bad_table_sql :: string where
  "bad_table_sql = ''SELECT * FROM samplea WHERE name = :name''"

text \<open>A stand-in for the test database: it has no table \<open>samplea\<close>, it rejects a
  parameter named \<open>extraneous\<close> if one reaches it, a SELECT returns the bound name as
  its row, and any other statement returns no rows.\<close>

datatype backend_kind = SyntaxError | UndefinedObject | Cancellation

definition sample_backend ::
  "string \<Rightarrow> (string \<rightharpoonup> string) \<Rightarrow> backend_kind + string list" where
  "sample_backend stmt ps =
     (if contains stmt ''samplea'' then Inl UndefinedObject
      else if ps ''extraneous'' \<noteq> None then Inl SyntaxError
      else if prefix ''SELECT'' stmt
      then Inr (case ps ''name'' of None \<Rightarrow> [] | Some v \<Rightarrow> [v])
      else Inr [])"


definition extraneous_request :: "execution_policy \<Rightarrow> string execution_request" where
  "extraneous_request p =
     \<lparr>statement = insert_sql,
      params = [''name'' \<mapsto> ''Test2'', ''extraneous'' \<mapsto> ''TestA''],
      policy = p, serverBindsHint = None\<rparr>"

definition bad_table_request :: "execution_policy \<Rightarrow> string execution_request" where
  "bad_table_request p =
     \<lparr>statement = bad_table_sql, params = [''name'' \<mapsto> ''Test''],
      policy = p, serverBindsHint = None\<rparr>"

definition example_cfg :: classifier_cfg where
  "example_cfg =
     \<lparr>more_keywords = [''UPDATE'', ''DELETE''], more_extensions = [], max_path_len = 255\<rparr>"

section \<open>Properties of the timer\<close>

subsection \<open>Helper facts\<close>


lemma self_add_step_Cons:
  "self_add_step nm t \<lparr>timings = x # xs\<rparr> =
     (Inr \<lparr>name = nm, delta = t - time (last (x # xs)), total_t = t - time x, time = t\<rparr>,
      \<lparr>timings = x # xs @
         [\<lparr>name = nm, delta = t - time (last (x # xs)), total_t = t - time x, time = t\<rparr>]\<rparr>)"
  by (simp add: self_add_step_def Let_def)




lemma py_round_examples:
  "py_round (0.0123 * 1000) 1 = 12.3"
  "py_round 0.25 1 = 0.2"
  "py_round 0.75 1 = 0.8"
  "py_round 0.26 1 = 0.3"
  "py_round (-0.25) 1 = -0.2"
  by (simp_all add: py_round_def round_half_even_def Let_def)

lemma self_add_step_appends:
  "\<exists>recs. timings (snd (self_add_step nm t obj)) = timings obj @ recs \<and> length recs \<le> 1"
  by (cases "timings obj") (simp_all add: self_add_step_def Let_def)

lemma server_timings_appends:
  "\<exists>recs. timings (snd (server_timings ms t obj)) = timings obj @ recs"
  by (cases "timings obj") (simp_all add: server_timings_def self_add_step_def Let_def)

lemma call_heap: "heap (snd (call r m s)) = (heap s)(r := snd (m (heap s r)))"
  by (simp add: call_def split: prod.split)

lemma call_code_timer: "code_timer (snd (call r m s)) = code_timer s"
  by (simp add: call_def split: prod.split)

lemma add_step_appends:
  "\<exists>recs. timings (heap (snd (add_step nm t s)) r) = timings (heap s r) @ recs"
proof (cases "code_timer_get s")
  case None
  then show ?thesis by (simp add: add_step_def)
next
  case (Some timer)
  have eq: "snd (add_step nm t s) = snd (call timer (self_add_step nm t) s)"
    using Some by (simp add: add_step_def split: prod.split sum.split)
  show ?thesis
  proof (cases "r = timer")
    case True
    then show ?thesis
      using self_add_step_appends [of nm t "heap s timer"] by (auto simp: eq call_heap)
  next
    case False
    then show ?thesis by (simp add: eq call_heap)
  qed
qed

text \<open>
  No block of calls removes or rewrites a record of any timer: each timer's list after
  the block is its list before, with records appended. The induction follows the
  recursion of \<open>run_cmd\<close> and \<open>run_block\<close>.
\<close>

lemma run_appends:
  "\<exists>recs. timings (heap (snd (run_cmd ms c s)) r) = timings (heap s r) @ recs"
  "\<exists>recs. timings (heap (snd (run_block ms b s)) r) = timings (heap s r) @ recs"
proof (induction ms c s and ms b s rule: run_cmd_run_block.induct)
  case (1 ms nm t s)
  then show ?case by (simp add: add_step_appends)
next
  case (2 ms r' t s)
  have eq: "heap (snd (run_cmd ms (ServerTimings r' t) s))
            = (heap s)(r' := snd (server_timings ms t (heap s r')))"
    by (simp add: call_def split: prod.split sum.split)
  show ?case
    unfolding eq using server_timings_appends [of ms t "heap s r'"] by (cases "r = r'") auto
next
  case (3 ms r' b s)
  have "heap (snd (run_cmd ms (WithContext r' b) s))
        = heap (snd (run_block ms b (snd (code_timer_set (Some r') s))))"
    by (simp add: Timer_context_def code_timer_reset_def split: prod.split)
  moreover have "heap (snd (code_timer_set (Some r') s)) = heap s"
    by (simp add: code_timer_set_def)
  ultimately show ?case
    using "3.IH" [of "snd (code_timer_set (Some r') s)"] by simp
next
  case (4 ms s)
  then show ?case by simp
next
  case (5 ms c cs s)
  obtain res s1 where r1: "run_cmd ms c s = (res, s1)" by (cases "run_cmd ms c s")
  obtain recs1 where a: "timings (heap s1 r) = timings (heap s r) @ recs1"
    using "5.IH"(1) r1 by auto
  show ?case
  proof (cases res)
    case (Inl e)
    then show ?thesis using r1 a by simp
  next
    case (Inr u)
    obtain recs2 where
      "timings (heap (snd (run_block ms cs s1)) r) = timings (heap s1 r) @ recs2"
      using "5.IH"(2) [OF r1 [symmetric] Inr] by auto
    then show ?thesis using r1 a Inr by simp
  qed
qed

subsection \<open>The scoped session and the end step\<close>

text \<open>
  C2, as stated: leaving \<open>Timer.context\<close> appends a final \<open>end\<close> step to the session,
  also when the body raises. It does not. In the session below the body records the
  step \<open>query\<close> and then raises (\<open>failing_body\<close>) or returns (\<open>returning_body\<close>);
  after the exit the session holds \<open>start\<close> and \<open>query\<close> and no \<open>end\<close>.
\<close>

theorem context_no_end_counterexample:
  "fst (Timer_context 0 failing_body example_state) = Inl ''boom'' \<and>
   map name (timings (heap (snd (Timer_context 0 failing_body example_state)) 0))
     = [''start'', ''query''] \<and>
   fst (Timer_context 0 returning_body example_state) = Inr () \<and>
   map name (timings (heap (snd (Timer_context 0 returning_body example_state)) 0))
     = [''start'', ''query'']"
  by (simp add: Timer_context_def failing_body_def returning_body_def example_state_def
      code_timer_set_def code_timer_reset_def add_step_def code_timer_get_def call_def
      self_add_step_def Timer_init_def Let_def)

text \<open>
  C2, amended: on every exit path \<open>Timer.context\<close> leaves the timing sequence of every
  session exactly as the body left it (the exit appends nothing); the \<open>end\<close> step is
  appended by \<open>server_timings\<close>, one record named \<open>end\<close> for each call on a
  session that has its \<open>start\<close> record.
\<close>

theorem context_keeps_timings:
  "heap (snd (Timer_context self body s))
     = heap (snd (body self (snd (code_timer_set (Some self) s))))
   \<and> (\<exists>out rec. server_timings ms t \<lparr>timings = x # xs\<rparr>
                    = (Inr out, \<lparr>timings = x # xs @ [rec]\<rparr>)
        \<and> name rec = ''end'')"
  by (simp add: Timer_context_def code_timer_reset_def server_timings_def self_add_step_Cons
      Let_def split: prod.split)

subsection \<open>The rendered header\<close>


text \<open>A session with one step of 12.3 ms, rendered 50 ms after its start.\<close>

lemma dur_example:
  "fst (Timer_server_timings str 10.05
      \<lparr>timings = [\<lparr>name = ''start'', delta = 0, total_t = 0, time = 10\<rparr>,
                  \<lparr>name = ''query'', delta = 0.0123, total_t = 0.0123, time = 10.0123\<rparr>]\<rparr>)
   = Inr (''query;dur='' @ str 12.3 @ '', total;dur='' @ str 50)"
  by (simp add: Timer_server_timings_def dur_def server_timings_def self_add_step_def
      slice_1_m1_def Let_def py_round_def round_half_even_def)

subsection \<open>Steps through the ambient session\<close>

text \<open>
  C4: when no session is ambient, \<open>add_step\<close> returns normally and the state (every
  session's timing sequence, and the context variable) is unchanged. When the session
  behind \<open>r\<close> is ambient and holds its records, \<open>add_step\<close> returns normally, that
  session gets exactly one record appended, with the given name, and every other
  session is unchanged.
\<close>

theorem add_step_ambient:
  "(code_timer_get s = None \<longrightarrow> add_step nm t s = (Inr (), s)) \<and>
   (code_timer_get s = Some r \<and> timings (heap s r) \<noteq> [] \<longrightarrow>
      add_step nm t s =
        (Inr (), s\<lparr>heap := (heap s)(r := (heap s r)\<lparr>timings := timings (heap s r) @
           [\<lparr>name = nm, delta = t - time (last (timings (heap s r))),
             total_t = t - time (hd (timings (heap s r))), time = t\<rparr>]\<rparr>)\<rparr>))"
  by (cases "timings (heap s r)")
     (simp_all add: add_step_def call_def self_add_step_def Let_def)

theorem add_step_ambient_witness:
  "add_step ''query'' 12 example_state = (Inr (), example_state) \<and>
   map name (timings (heap (snd (add_step ''query'' 12
       (example_state\<lparr>code_timer := Some (Some 3)\<rparr>))) 3)) = [''start'', ''query''] \<and>
   heap (snd (add_step ''query'' 12 (example_state\<lparr>code_timer := Some (Some 3)\<rparr>))) 4
     = heap example_state 4"
  using add_step_ambient [where s = example_state and nm = "''query''" and t = 12 and r = 0]
    add_step_ambient [where s = "example_state\<lparr>code_timer := Some (Some 3)\<rparr>"
      and nm = "''query''" and t = 12 and r = 3]
  by (simp add: example_state_def code_timer_get_def Timer_init_def)

subsection \<open>The start record\<close>

text \<open>
  C6: take any state, create a Timer at clock reading \<open>t0\<close> behind the reference \<open>r\<close>,
  and run any block of \<open>add_step\<close>, \<open>server_timings\<close> and \<open>context\<close> calls, whether
  it returns or raises. The session's timing sequence is then the record named
  \<open>start\<close>, with delta and total zero, followed by the appended records: it is never
  empty and its first entry never changes.
\<close>

theorem timings_start_invariant:
  "\<exists>recs. timings (heap (snd (run_block ms b (s\<lparr>heap := (heap s)(r := Timer_init t0)\<rparr>))) r)
      = \<lparr>name = ''start'', delta = 0, total_t = 0, time = t0\<rparr> # recs"
  using run_appends(2) [of ms b "s\<lparr>heap := (heap s)(r := Timer_init t0)\<rparr>" r]
  by (auto simp: Timer_init_def)

subsection \<open>The ambient session is restored\<close>

text \<open>
  C10: \<open>Timer.context\<close> runs the body in a state \<open>s1\<close> in which the context variable
  reads \<open>self\<close> and the store is as before; whatever the body does and however it
  ends (its outcome, a value or an exception, is passed on unchanged), the context
  variable afterwards is exactly what it was before the entry.
\<close>

theorem context_restores_code_timer:
  "\<exists>s1. code_timer_get s1 = Some self \<and> heap s1 = heap s \<and>
     Timer_context self body s =
       (fst (body self s1), (snd (body self s1))\<lparr>code_timer := code_timer s\<rparr>)"
proof -
  let ?s1 = "s\<lparr>code_timer := Some (Some self)\<rparr>"
  have "code_timer_get ?s1 = Some self" by (simp add: code_timer_get_def)
  moreover have "heap ?s1 = heap s" by simp
  moreover have "Timer_context self body s =
       (fst (body self ?s1), (snd (body self ?s1))\<lparr>code_timer := code_timer s\<rparr>)"
    by (simp add: Timer_context_def code_timer_set_def code_timer_reset_def split: prod.split)
  ultimately show ?thesis by blast
qed

section \<open>Properties of the statement-execution layer\<close>

subsection \<open>Evaluation of the examples\<close>

lemmas char_eval = to_upper_def lower_chars_def upper_chars_def digit_chars_def
  is_ident_char_def is_space_def

lemma sample_sql_eval:
  "\<not> mentions_keyword ''sample.sql'' ''SELECT''"
  "\<not> mentions_keyword ''sample.sql'' ''INSERT''"
  "\<not> mentions_keyword ''sample.sql'' ''CREATE''"
  "no_whitespace ''sample.sql''"
  "suffix ''.sql'' ''sample.sql''"
  "mentions_keyword ''SELECT * FROM sample'' ''SELECT''"
  by (simp_all add: mentions_keyword_def no_whitespace_def suffix_def char_eval)


lemma marks_insert_sql: "marks_of insert_sql = [NamedMark ''name'']"
  by (simp add: marks_of_def insert_sql_def dollar_open_def percent_mark_def char_eval)

lemma marks_bad_table_sql: "marks_of bad_table_sql = [NamedMark ''name'']"
  by (simp add: marks_of_def bad_table_sql_def dollar_open_def percent_mark_def char_eval)

lemma contains_samplea:
  "contains bad_table_sql ''samplea''" "\<not> contains insert_sql ''samplea''"
  "\<not> prefix ''SELECT'' insert_sql"
  by (simp_all add: bad_table_sql_def insert_sql_def)

lemma execute_params_cong:
  "ps |` set (placeholder_names (statement req)) = ps' |` set (placeholder_names (statement req))
   \<Longrightarrow> execute (req\<lparr>params := ps\<rparr>) conn = execute (req\<lparr>params := ps'\<rparr>) conn"
  by (simp add: execute_def Let_def split: sum.split execution_policy.split)

subsection \<open>Percent signs inside dollar-quoted spans\<close>




subsection \<open>Inline text or file path\<close>

text \<open>
  C5: \<open>classify\<close> answers \<open>FilePath\<close> for \<open>sample.sql\<close> (when the length bound admits
  its ten characters and none of the further keywords occurs in it) and
  \<open>InlineText\<close> for \<open>SELECT * FROM sample\<close>; \<open>infer_is_sql_text\<close> is false for the
  first and true for the second; and a string that contains a SQL keyword, in any
  letter case, or a newline is never classified as a path.
\<close>

theorem classify_conservative:
  "(length ''sample.sql'' \<le> max_path_len cfg
      \<and> \<not> list_ex (mentions_keyword ''sample.sql'') (more_keywords cfg)
      \<longrightarrow> classify cfg (Str ''sample.sql'') = FilePath
          \<and> \<not> infer_is_sql_text cfg (Str ''sample.sql''))
   \<and> classify cfg (Str ''SELECT * FROM sample'') = InlineText
   \<and> infer_is_sql_text cfg (Str ''SELECT * FROM sample'')
   \<and> (list_ex (mentions_keyword s) (sql_keywords cfg) \<or> CHR 0x0A \<in> set s
       \<longrightarrow> classify cfg (Str s) \<noteq> FilePath \<and> infer_is_sql_text cfg (Str s))"
proof -
  have tok: "has_sql_token cfg ''sample.sql''
             = list_ex (mentions_keyword ''sample.sql'') (more_keywords cfg)"
    by (simp add: has_sql_token_def sql_keywords_def sample_sql_eval)
  have shape: "path_shape cfg ''sample.sql'' = (length ''sample.sql'' \<le> max_path_len cfg)"
    by (simp add: path_shape_def sql_extensions_def sample_sql_eval)
  have a: "length ''sample.sql'' \<le> max_path_len cfg
      \<and> \<not> list_ex (mentions_keyword ''sample.sql'') (more_keywords cfg)
      \<longrightarrow> classify cfg (Str ''sample.sql'') = FilePath
          \<and> \<not> infer_is_sql_text cfg (Str ''sample.sql'')"
    by (simp add: infer_is_sql_text_def classify_def tok shape)
  have "has_sql_token cfg ''SELECT * FROM sample''"
    by (simp add: has_sql_token_def sql_keywords_def sample_sql_eval)
  then have b: "classify cfg (Str ''SELECT * FROM sample'') = InlineText"
    by (simp add: classify_def)
  have c: "list_ex (mentions_keyword s) (sql_keywords cfg) \<or> CHR 0x0A \<in> set s
       \<longrightarrow> classify cfg (Str s) \<noteq> FilePath"
    by (simp add: classify_def has_sql_token_def)
  show ?thesis using a b c by (simp add: infer_is_sql_text_def)
qed

theorem classify_conservative_witness:
  "classify example_cfg (Str ''sample.sql'') = FilePath \<and>
   \<not> infer_is_sql_text example_cfg (Str ''sample.sql'') \<and>
   classify example_cfg (Str ''SELECT * FROM sample'') = InlineText \<and>
   classify example_cfg (Str ''select_all.sql'') \<noteq> FilePath \<and>
   infer_is_sql_text example_cfg (Str (''a'' @ [CHR 0x0A] @ ''b.sql''))"
proof -
  have h1: "length ''sample.sql'' \<le> max_path_len example_cfg \<and>
      \<not> list_ex (mentions_keyword ''sample.sql'') (more_keywords example_cfg)"
    by (simp add: example_cfg_def mentions_keyword_def char_eval)
  have h2: "list_ex (mentions_keyword ''select_all.sql'') (sql_keywords example_cfg)"
    by (simp add: sql_keywords_def mentions_keyword_def char_eval)
  have h3: "CHR 0x0A \<in> set (''a'' @ [CHR 0x0A] @ ''b.sql'')" by simp
  show ?thesis
    using classify_conservative [where cfg = example_cfg and s = "''select_all.sql''"]
      classify_conservative [where cfg = example_cfg and s = "''a'' @ [CHR 0x0A] @ ''b.sql''"]
      h1 h2 h3
    by blast
qed

subsection \<open>Extra parameters\<close>

text \<open>
  C7: keys of \<open>params\<close> that do not appear as placeholders in the statement change
  nothing: two parameter mappings that agree on the names of the placeholders give
  the same execution, under every policy and for every connection handle. Under the
  default policy \<open>Silent\<close>, a request whose text is not ambiguous returns a result and
  no error, and no notice is emitted.
\<close>

theorem extra_params_ignored:
  "(list_all (\<lambda>n. ps n = ps' n) (placeholder_names (statement req))
      \<longrightarrow> execute (req\<lparr>params := ps\<rparr>) conn = execute (req\<lparr>params := ps'\<rparr>) conn)
   \<and> (policy req = Silent \<and> \<not> ambiguous (analyze (statement req) (serverBindsHint req))
      \<longrightarrow> (\<exists>rows. execute req conn = ([], Inr rows)))"
proof -
  have a: "list_all (\<lambda>n. ps n = ps' n) (placeholder_names (statement req))
      \<longrightarrow> execute (req\<lparr>params := ps\<rparr>) conn = execute (req\<lparr>params := ps'\<rparr>) conn"
  proof
    assume h: "list_all (\<lambda>n. ps n = ps' n) (placeholder_names (statement req))"
    have "ps |` set (placeholder_names (statement req))
          = ps' |` set (placeholder_names (statement req))"
      using h by (auto simp: restrict_map_def list_all_iff fun_eq_iff)
    then show "execute (req\<lparr>params := ps\<rparr>) conn = execute (req\<lparr>params := ps'\<rparr>) conn"
      by (rule execute_params_cong)
  qed
  have b: "policy req = Silent \<and> \<not> ambiguous (analyze (statement req) (serverBindsHint req))
      \<longrightarrow> (\<exists>rows. execute req conn = ([], Inr rows))"
    by (auto simp: execute_def split: sum.split)
  show ?thesis using a b by blast
qed

text \<open>
  The request of \<^verbatim>\<open>test_extraneous_argument\<close>: under the default policy, and under
  \<open>Strict\<close> as well, the backend that would reject the parameter \<open>extraneous\<close> never
  sees it, and the insert succeeds.
\<close>

theorem extra_params_ignored_witness:
  "execute (extraneous_request (resolve False False)) sample_backend = ([], Inr []) \<and>
   execute (extraneous_request Strict) sample_backend = ([], Inr [])"
proof -
  let ?ps = "[''name'' \<mapsto> ''Test2'', ''extraneous'' \<mapsto> ''TestA'']"
  let ?ps' = "[''name'' \<mapsto> ''Test2'']"
  have st: "statement (extraneous_request p) = insert_sql"
    and pa: "(extraneous_request p)\<lparr>params := ?ps\<rparr> = extraneous_request p" for p
    by (simp_all add: extraneous_request_def)
  have h1: "list_all (\<lambda>n. ?ps n = ?ps' n) (placeholder_names (statement (extraneous_request p)))"
    for p
    by (simp add: st placeholder_names_def marks_insert_sql)
  have h2: "policy (extraneous_request Silent) = Silent \<and>
            \<not> ambiguous (analyze (statement (extraneous_request Silent))
                 (serverBindsHint (extraneous_request Silent)))"
    by (simp add: extraneous_request_def analyze_def marks_insert_sql)
  have e: "p \<noteq> WarnDeprecated \<Longrightarrow>
           execute ((extraneous_request p)\<lparr>params := ?ps'\<rparr>) sample_backend = ([], Inr [])" for p
    by (simp add: extraneous_request_def execute_def analyze_def marks_insert_sql
        placeholder_names_def sample_backend_def contains_samplea restrict_map_def
        split: execution_policy.split)
  have a: "execute (extraneous_request p) sample_backend
           = execute ((extraneous_request p)\<lparr>params := ?ps'\<rparr>) sample_backend" for p
    using extra_params_ignored [where req = "extraneous_request p" and conn = sample_backend
        and ps = ?ps and ps' = ?ps'] h1 [of p] pa [of p]
    by simp
  have b: "\<exists>rows. execute (extraneous_request Silent) sample_backend = ([], Inr rows)"
    using extra_params_ignored [where req = "extraneous_request Silent"
        and conn = sample_backend and ps = ?ps and ps' = ?ps'] h2
    by blast
  show ?thesis using a [of Silent] a [of Strict] e [of Silent] e [of Strict] b
    by (simp add: resolve_def)
qed

subsection \<open>The legacy flag\<close>

text \<open>
  C8: the legacy flag selects \<open>WarnDeprecated\<close>. Under it every call emits exactly one
  DeprecationNotice, whether the statement succeeds or fails, where \<open>Strict\<close> emits
  none; the outcome is the outcome under \<open>Strict\<close>; and a statement that fails at the
  backend with classification \<open>k\<close> raises the BackendExecutionError of that
  classification.
\<close>

theorem legacy_flag_warns_and_raises:
  "resolve True False = WarnDeprecated \<and>
   fst (execute (req\<lparr>policy := WarnDeprecated\<rparr>) conn) = [DeprecationNotice] \<and>
   fst (execute (req\<lparr>policy := Strict\<rparr>) conn) = [] \<and>
   snd (execute (req\<lparr>policy := WarnDeprecated\<rparr>) conn)
     = snd (execute (req\<lparr>policy := Strict\<rparr>) conn) \<and>
   (\<not> ambiguous (analyze (statement req) (serverBindsHint req)) \<and>
    conn (statement req) (params req |` set (placeholder_names (statement req))) = Inl k
      \<longrightarrow> snd (execute (req\<lparr>policy := WarnDeprecated\<rparr>) conn)
            = Inl (BackendExecutionError k))"
  by (simp add: resolve_def execute_def split: sum.split)

text \<open>
  The request of \<^verbatim>\<open>test_query_error\<close>: the table does not exist; under the legacy
  flag the call emits the notice and raises the backend's error, the same error that
  \<^verbatim>\<open>raise_errors=True\<close> raises in \<^verbatim>\<open>test_query_error_1\<close>.
\<close>

theorem legacy_flag_warns_and_raises_witness:
  "execute (bad_table_request (resolve True False)) sample_backend
     = ([DeprecationNotice], Inl (BackendExecutionError UndefinedObject)) \<and>
   execute (bad_table_request (resolve False True)) sample_backend
     = ([], Inl (BackendExecutionError UndefinedObject))"
proof -
  let ?req = "bad_table_request Silent"
  have p: "?req\<lparr>policy := q\<rparr> = bad_table_request q" for q
    by (simp add: bad_table_request_def)
  have h: "\<not> ambiguous (analyze (statement ?req) (serverBindsHint ?req)) \<and>
    sample_backend (statement ?req) (params ?req |` set (placeholder_names (statement ?req)))
      = Inl UndefinedObject"
    by (simp add: bad_table_request_def analyze_def marks_bad_table_sql sample_backend_def
        contains_samplea)
  show ?thesis
    using legacy_flag_warns_and_raises [where req = ?req and conn = sample_backend
        and k = UndefinedObject] h
    unfolding p
    by (cases "execute (bad_table_request WarnDeprecated) sample_backend";
        cases "execute (bad_table_request Strict) sample_backend")
       (simp add: resolve_def)
qed

end
